theory Spec2Isabelle
  imports Complex_Main
begin

section \<open>Black-Scholes credit-spread analysis (tastytrade\_data/find\_tendies.py)\<close>

text \<open>
  The embedding follows \<^verbatim>\<open>find_tendies.py\<close>: the class \<^verbatim>\<open>BlackScholesCalculator\<close>
  and the function \<^verbatim>\<open>find_deals_with_delta_analysis\<close>.

  Numbers. Python floats are modelled by real numbers: rounding is not represented, nor
  are the IEEE values inf and nan. Where the source leaves the finite reals:
  \<^item> \<^verbatim>\<open>S / K\<close> on Python numbers raises \<^verbatim>\<open>ZeroDivisionError\<close> when \<^verbatim>\<open>K\<close> is zero;
  \<^item> \<^verbatim>\<open>sigma ** 2\<close> on a Python float raises \<^verbatim>\<open>OverflowError\<close> when the square is too
    large for a double, which is from \<open>2 ^ 1024 - 2 ^ 970\<close> on;
  \<^item> \<^verbatim>\<open>np.log\<close> of a non-positive number is \<^verbatim>\<open>-inf\<close> or \<^verbatim>\<open>nan\<close> (numpy only warns) and the
    source goes on computing with it. The model does not follow it there: it stops with
    the marker \<open>FloatNotFinite\<close>, which is not a Python exception. This happens only for a
    stock price or a strike that is not positive, and no theorem below speaks about what
    the source computes from there.

  The other operations overflow to inf, underflow to 0 or give nan (a quotient of two
  zeros) without an exception, and the model computes the real value instead. On the
  pricing model the theorems about the branch that computes are therefore stated for
  arguments of moderate size, where no intermediate result leaves the range of the doubles.

  The standard normal distribution function \<^verbatim>\<open>scipy.stats.norm.cdf\<close> is library code and
  has no closed form over \<open>Complex_Main\<close>; every operation takes it as the parameter \<open>cdf\<close>.
  The density \<^verbatim>\<open>norm.pdf\<close> is written out.
\<close>

datatype py_error = ZeroDivisionError | OverflowError | ValueError | FloatNotFinite

subsection \<open>The pricing model\<close>

record BlackScholesCalculator =
  risk_free_rate :: real

record greeks =
  delta :: real
  theta :: real
  gamma :: real
  vega :: real

definition norm_pdf :: "real \<Rightarrow> real" where
  "norm_pdf x = exp (- (x\<^sup>2) / 2) / sqrt (2 * pi)"

text \<open>\<^verbatim>\<open>np.log(S / K)\<close>, the first sub-expression the three operations evaluate.\<close>

definition log_ratio :: "real \<Rightarrow> real \<Rightarrow> py_error + real" where
  "log_ratio S K =
     (if K = 0 then Inl ZeroDivisionError
      else if S / K \<le> 0 then Inl FloatNotFinite
      else Inr (ln (S / K)))"

text \<open>\<^verbatim>\<open>sigma ** 2\<close> on a Python float: the square, or \<^verbatim>\<open>OverflowError\<close> when it rounds
  to infinity.\<close>

definition float_pow2 :: "real \<Rightarrow> py_error + real" where
  "float_pow2 x = (if 2 ^ 1024 - 2 ^ 970 \<le> x\<^sup>2 then Inl OverflowError else Inr (x\<^sup>2))"

text \<open>\<^verbatim>\<open>black_scholes_call(self, S, K, T, r, sigma)\<close>; \<^verbatim>\<open>self\<close> is not used by the source.\<close>

definition black_scholes_call ::
  "(real \<Rightarrow> real) \<Rightarrow> real \<Rightarrow> real \<Rightarrow> real \<Rightarrow> real \<Rightarrow> real \<Rightarrow> py_error + real" where
  "black_scholes_call cdf S K T r sigma =
     (if T \<le> 0 then Inr (max (S - K) 0)
      else if sigma \<le> 0 then Inr (max (S - K) 0)
      else case log_ratio S K of
        Inl e \<Rightarrow> Inl e
      | Inr l \<Rightarrow>
          case float_pow2 sigma of
            Inl e \<Rightarrow> Inl e
          | Inr sigma2 \<Rightarrow>
              let d1 = (l + (r + 0.5 * sigma2) * T) / (sigma * sqrt T);
                  d2 = d1 - sigma * sqrt T;
                  call_price = S * cdf d1 - K * exp (- r * T) * cdf d2
              in Inr (max call_price 0))"

text \<open>\<^verbatim>\<open>probability_otm(self, S, K, T, sigma, option_type='call')\<close>; the option type is the
  source's string.\<close>

definition probability_otm ::
  "(real \<Rightarrow> real) \<Rightarrow> BlackScholesCalculator \<Rightarrow> real \<Rightarrow> real \<Rightarrow> real \<Rightarrow> real \<Rightarrow> string
     \<Rightarrow> py_error + real" where
  "probability_otm cdf self S K T sigma option_type =
     (if T \<le> 0 then
        Inr (if (option_type = ''call'' \<and> S < K) \<or> (option_type = ''put'' \<and> S > K)
             then 1 else 0)
      else if sigma \<le> 0 then
        Inr (if (option_type = ''call'' \<and> S < K) \<or> (option_type = ''put'' \<and> S > K)
             then 1 else 0)
      else case log_ratio S K of
        Inl e \<Rightarrow> Inl e
      | Inr l \<Rightarrow>
          case float_pow2 sigma of
            Inl e \<Rightarrow> Inl e
          | Inr sigma2 \<Rightarrow>
              let d2 = (l + (risk_free_rate self - 0.5 * sigma2) * T) / (sigma * sqrt T)
              in Inr (if option_type = ''call'' then cdf (- d2) else cdf d2))"

text \<open>\<^verbatim>\<open>calculate_greeks(self, S, K, T, r, sigma, option_type='call')\<close>.\<close>

definition calculate_greeks ::
  "(real \<Rightarrow> real) \<Rightarrow> real \<Rightarrow> real \<Rightarrow> real \<Rightarrow> real \<Rightarrow> real \<Rightarrow> string \<Rightarrow> py_error + greeks" where
  "calculate_greeks cdf S K T r sigma option_type =
     (if T \<le> 0 then Inr \<lparr>delta = 0, theta = 0, gamma = 0, vega = 0\<rparr>
      else if sigma \<le> 0 then Inr \<lparr>delta = 0, theta = 0, gamma = 0, vega = 0\<rparr>
      else case log_ratio S K of
        Inl e \<Rightarrow> Inl e
      | Inr l \<Rightarrow>
          case float_pow2 sigma of
            Inl e \<Rightarrow> Inl e
          | Inr sigma2 \<Rightarrow>
              let d1 = (l + (r + 0.5 * sigma2) * T) / (sigma * sqrt T);
                  d2 = d1 - sigma * sqrt T;
                  dl = (if option_type = ''call'' then cdf d1 else - cdf (- d1));
                  th = (if option_type = ''call''
                        then (- S * norm_pdf d1 * sigma / (2 * sqrt T)
                              - r * K * exp (- r * T) * cdf d2) / 365
                        else (- S * norm_pdf d1 * sigma / (2 * sqrt T)
                              + r * K * exp (- r * T) * cdf (- d2)) / 365);
                  gm = norm_pdf d1 / (S * sigma * sqrt T);
                  vg = S * norm_pdf d1 * sqrt T / 100
              in Inr \<lparr>delta = dl, theta = th, gamma = gm, vega = vg\<rparr>)"

subsection \<open>The input datasets\<close>

text \<open>
  The three JSON documents the function uses (a fourth, \<^verbatim>\<open>step1_stock_prices.json\<close>,
  is loaded and never looked at). A JSON object that the source iterates
  with \<^verbatim>\<open>.items()\<close> is an association list in document order; the two lookup
  dictionaries the source builds are maps.
\<close>

record contract =
  contract_type :: string
  strike_price :: real
  streamer_symbol :: string
  days_until_expires :: int

record company_options =
  current_stock_price :: real
  expiration_dates :: "(string \<times> contract list) list"

record greek_entry =
  contract_name :: string
  implied_volatility :: real

record price_entry =
  contract_name :: string
  what_buyers_pay :: real
  what_sellers_want :: real

subsection \<open>The spread records and the loop state\<close>

text \<open>The dictionary \<^verbatim>\<open>spread\<close>; its \<^verbatim>\<open>explanation\<close> text is a formatting of the other
  fields and is left out.\<close>

record spread =
  company :: string
  short_strike :: real
  long_strike :: real
  days_to_expiration :: int
  credit_collected :: real
  max_risk :: real
  roi_percent :: real
  probability_of_profit :: real
  current_stock_price :: real
  avg_implied_volatility :: real
  spread_delta :: real
  spread_theta :: real
  delta_interpretation :: string

record delta_stats =
  deltas_seen :: "real list"
  negative_deltas :: nat
  neutral_deltas :: nat
  positive_deltas :: nat

record spread_lists =
  all_spreads_no_delta :: "spread list"
  all_spreads_loose_delta :: "spread list"
  all_spreads_strict_delta :: "spread list"
  stats :: delta_stats

definition build_greek_lookup :: "(string \<times> greek_entry list) list \<Rightarrow> (string \<rightharpoonup> greek_entry)" where
  "build_greek_lookup risk_by_company =
     fold (\<lambda>(company, greeks_list) lookup.
             fold (\<lambda>greek m. m(greek_entry.contract_name greek \<mapsto> greek)) greeks_list lookup)
          risk_by_company Map.empty"

definition build_price_lookup :: "(string \<times> price_entry list) list \<Rightarrow> (string \<rightharpoonup> price_entry)" where
  "build_price_lookup prices_by_company =
     fold (\<lambda>(company, prices_list) lookup.
             fold (\<lambda>price m. m(price_entry.contract_name price \<mapsto> price)) prices_list lookup)
          prices_by_company Map.empty"

text \<open>Lines 199 to 205: the delta statistics.\<close>

definition track_delta :: "real \<Rightarrow> delta_stats \<Rightarrow> delta_stats" where
  "track_delta d ds =
     (let ds1 = ds\<lparr>deltas_seen := deltas_seen ds @ [d]\<rparr>
      in if d < - 0.1 then ds1\<lparr>negative_deltas := negative_deltas ds1 + 1\<rparr>
         else if - 0.2 \<le> d \<and> d \<le> 0.2 then ds1\<lparr>neutral_deltas := neutral_deltas ds1 + 1\<rparr>
         else ds1\<lparr>positive_deltas := positive_deltas ds1 + 1\<rparr>)"

text \<open>Lines 229 to 238: an accepted spread is appended to the lists its delta admits.\<close>

definition add_spread :: "spread \<Rightarrow> spread_lists \<Rightarrow> spread_lists" where
  "add_spread s st =
     (let st1 = st\<lparr>all_spreads_no_delta := all_spreads_no_delta st @ [s]\<rparr>;
          st2 = (if - 0.5 \<le> spread_delta s \<and> spread_delta s \<le> 0.5
                 then st1\<lparr>all_spreads_loose_delta := all_spreads_loose_delta st1 @ [s]\<rparr>
                 else st1)
      in if - 0.2 \<le> spread_delta s \<and> spread_delta s \<le> 0.2
         then st2\<lparr>all_spreads_strict_delta := all_spreads_strict_delta st2 @ [s]\<rparr>
         else st2)"

text \<open>Lines 133 to 238: the body of the innermost loop for one pair of adjacent calls.
  Every \<^verbatim>\<open>continue\<close> returns the state as it is.\<close>

definition process_pair ::
  "(real \<Rightarrow> real) \<Rightarrow> BlackScholesCalculator \<Rightarrow> (string \<rightharpoonup> price_entry) \<Rightarrow> (string \<rightharpoonup> greek_entry)
     \<Rightarrow> string \<Rightarrow> real \<Rightarrow> contract \<Rightarrow> contract \<Rightarrow> spread_lists \<Rightarrow> py_error + spread_lists" where
  "process_pair cdf bs_calc price_lookup greek_lookup co spot short_call long_call st =
     (if strike_price long_call - strike_price short_call > 5 then Inr st
      else
        let short_symbol = streamer_symbol short_call;
            long_symbol = streamer_symbol long_call
        in case (price_lookup short_symbol, price_lookup long_symbol,
                 greek_lookup short_symbol, greek_lookup long_symbol) of
          (Some short_price_data, Some long_price_data,
           Some short_greek_data, Some long_greek_data) \<Rightarrow>
            let short_iv = implied_volatility short_greek_data;
                long_iv = implied_volatility long_greek_data;
                avg_iv = (short_iv + long_iv) / 2;
                days_to_exp = days_until_expires short_call;
                time_to_exp = real_of_int days_to_exp / 365
            in if time_to_exp \<le> 0 then Inr st
               else
                 let short_bid = what_buyers_pay short_price_data;
                     long_ask = what_sellers_want long_price_data
                 in if short_bid \<le> 0 \<or> long_ask \<le> 0 then Inr st
                    else
                      let market_credit = short_bid - long_ask
                      in if market_credit \<le> 0 then Inr st
                         else
                           case probability_otm cdf bs_calc spot (strike_price short_call)
                                  time_to_exp avg_iv ''call'' of
                             Inl e \<Rightarrow> Inl e
                           | Inr p \<Rightarrow>
                           let prob_profit_bs = p * 100;
                               strike_width = strike_price long_call - strike_price short_call;
                               mx_risk = strike_width - market_credit;
                               roi = (if mx_risk > 0 then (market_credit / mx_risk) * 100 else 0)
                           in case calculate_greeks cdf spot (strike_price short_call)
                                     time_to_exp (risk_free_rate bs_calc) short_iv ''call'' of
                             Inl e \<Rightarrow> Inl e
                           | Inr short_greeks \<Rightarrow>
                           case calculate_greeks cdf spot (strike_price long_call)
                                  time_to_exp (risk_free_rate bs_calc) long_iv ''call'' of
                             Inl e \<Rightarrow> Inl e
                           | Inr long_greeks \<Rightarrow>
                           let sp_delta = delta short_greeks - delta long_greeks;
                               sp_theta = theta short_greeks - theta long_greeks;
                               st1 = st\<lparr>stats := track_delta sp_delta (stats st)\<rparr>
                           in if roi \<le> 10 \<or> prob_profit_bs \<le> 66 then Inr st1
                              else
                                Inr (add_spread
                                  \<lparr>company = co,
                                   short_strike = strike_price short_call,
                                   long_strike = strike_price long_call,
                                   days_to_expiration = days_to_exp,
                                   credit_collected = market_credit,
                                   max_risk = mx_risk,
                                   roi_percent = roi,
                                   probability_of_profit = prob_profit_bs,
                                   current_stock_price = spot,
                                   avg_implied_volatility = avg_iv,
                                   spread_delta = sp_delta,
                                   spread_theta = sp_theta,
                                   delta_interpretation =
                                     (if \<bar>sp_delta\<bar> \<le> 0.2 then ''Neutral''
                                      else if sp_delta > 0.2 then ''Bullish'' else ''Bearish'')\<rparr>
                                  st1)
        | _ \<Rightarrow> Inr st)"

subsection \<open>The loops\<close>

text \<open>A \<^verbatim>\<open>for\<close> loop whose body may raise: the first error ends the loop.\<close>

fun for_each :: "('a \<Rightarrow> 's \<Rightarrow> py_error + 's) \<Rightarrow> 'a list \<Rightarrow> 's \<Rightarrow> py_error + 's" where
  "for_each body [] st = Inr st"
| "for_each body (x # xs) st =
     (case body x st of Inl e \<Rightarrow> Inl e | Inr st' \<Rightarrow> for_each body xs st')"

text \<open>Lines 128 to 130: the calls above the stock price, sorted by strike
  (\<^verbatim>\<open>list.sort\<close> is stable, as \<open>sort_key\<close> is).\<close>

definition calls_above_price :: "real \<Rightarrow> contract list \<Rightarrow> contract list" where
  "calls_above_price spot contracts =
     sort_key strike_price
       (filter (\<lambda>c. strike_price c > spot)
          (filter (\<lambda>c. contract_type c = ''CALL'') contracts))"

text \<open>Lines 132 to 134: \<^verbatim>\<open>for i in range(len(xs) - 1)\<close> with \<^verbatim>\<open>xs[i]\<close> and \<^verbatim>\<open>xs[i + 1]\<close>.\<close>

definition adjacent_pairs :: "'a list \<Rightarrow> ('a \<times> 'a) list" where
  "adjacent_pairs xs = map (\<lambda>i. (xs ! i, xs ! (i + 1))) [0 ..< length xs - 1]"

definition expiration_loop ::
  "(real \<Rightarrow> real) \<Rightarrow> BlackScholesCalculator \<Rightarrow> (string \<rightharpoonup> price_entry) \<Rightarrow> (string \<rightharpoonup> greek_entry)
     \<Rightarrow> string \<Rightarrow> real \<Rightarrow> contract list \<Rightarrow> spread_lists \<Rightarrow> py_error + spread_lists" where
  "expiration_loop cdf bs_calc price_lookup greek_lookup co spot contracts st =
     for_each (\<lambda>(short_call, long_call).
                 process_pair cdf bs_calc price_lookup greek_lookup co spot short_call long_call)
       (adjacent_pairs (calls_above_price spot contracts)) st"

definition company_loop ::
  "(real \<Rightarrow> real) \<Rightarrow> BlackScholesCalculator \<Rightarrow> (string \<rightharpoonup> price_entry) \<Rightarrow> (string \<rightharpoonup> greek_entry)
     \<Rightarrow> string \<times> company_options \<Rightarrow> spread_lists \<Rightarrow> py_error + spread_lists" where
  "company_loop cdf bs_calc price_lookup greek_lookup entry st =
     (case entry of (co, opts) \<Rightarrow>
        for_each (\<lambda>(exp_date, contracts).
                    expiration_loop cdf bs_calc price_lookup greek_lookup co
                      (company_options.current_stock_price opts) contracts)
          (expiration_dates opts) st)"

definition empty_lists :: spread_lists where
  "empty_lists =
     \<lparr>all_spreads_no_delta = [], all_spreads_loose_delta = [], all_spreads_strict_delta = [],
      stats = \<lparr>deltas_seen = [], negative_deltas = 0, neutral_deltas = 0, positive_deltas = 0\<rparr>\<rparr>"

text \<open>Lines 97 to 238: the calculator with its default rate, the lookups and the loops.\<close>

definition collect_spreads ::
  "(real \<Rightarrow> real) \<Rightarrow> (string \<times> company_options) list \<Rightarrow> (string \<times> greek_entry list) list
     \<Rightarrow> (string \<times> price_entry list) list \<Rightarrow> py_error + spread_lists" where
  "collect_spreads cdf options_by_company risk_by_company prices_by_company =
     for_each
       (company_loop cdf \<lparr>risk_free_rate = 0.05\<rparr>
          (build_price_lookup prices_by_company) (build_greek_lookup risk_by_company))
       options_by_company empty_lists"

text \<open>Lines 241 to 243: \<^verbatim>\<open>sort(key=..., reverse=True)\<close> keeps the order of equal keys.\<close>

definition sort_by_probability :: "spread list \<Rightarrow> spread list" where
  "sort_by_probability xs = sort_key (\<lambda>x. - probability_of_profit x) xs"

definition sorted_lists ::
  "(real \<Rightarrow> real) \<Rightarrow> (string \<times> company_options) list \<Rightarrow> (string \<times> greek_entry list) list
     \<Rightarrow> (string \<times> price_entry list) list \<Rightarrow> py_error + spread_lists" where
  "sorted_lists cdf options_by_company risk_by_company prices_by_company =
     (case collect_spreads cdf options_by_company risk_by_company prices_by_company of
        Inl e \<Rightarrow> Inl e
      | Inr st \<Rightarrow>
          Inr (st\<lparr>all_spreads_no_delta := sort_by_probability (all_spreads_no_delta st),
                  all_spreads_loose_delta := sort_by_probability (all_spreads_loose_delta st),
                  all_spreads_strict_delta := sort_by_probability (all_spreads_strict_delta st)\<rparr>))"

subsection \<open>The result document\<close>

record delta_counts =
  no_delta_filter :: nat
  loose_delta_filter :: nat
  strict_delta_filter :: nat

record result =
  step :: int
  filters_used :: string
  total_opportunities :: nat
  delta_analysis :: delta_counts
  best_deals :: "spread list"
  timestamp :: string

text \<open>
  \<^verbatim>\<open>find_deals_with_delta_analysis()\<close>. The files it reads are the arguments, the clock
  reading \<^verbatim>\<open>datetime.now().isoformat()\<close> is the argument \<open>now\<close>, and the returned
  dictionary (the one written to \<^verbatim>\<open>step5_delta_analysis.json\<close>) is the value. Of the
  report printed on the way only line 246 matters: \<^verbatim>\<open>min\<close> and \<^verbatim>\<open>max\<close> of the deltas
  seen raise \<^verbatim>\<open>ValueError\<close> on an empty list.
\<close>

definition find_deals_with_delta_analysis ::
  "(real \<Rightarrow> real) \<Rightarrow> string \<Rightarrow> (string \<times> company_options) list \<Rightarrow> (string \<times> greek_entry list) list
     \<Rightarrow> (string \<times> price_entry list) list \<Rightarrow> py_error + result" where
  "find_deals_with_delta_analysis cdf now options_by_company risk_by_company prices_by_company =
     (case sorted_lists cdf options_by_company risk_by_company prices_by_company of
        Inl e \<Rightarrow> Inl e
      | Inr st \<Rightarrow>
          if deltas_seen (stats st) = [] then Inl ValueError
          else Inr
            \<lparr>step = 5,
             filters_used = ''ROI > 10%, PoP > 66%, NO delta filter'',
             total_opportunities = length (all_spreads_no_delta st),
             delta_analysis =
               \<lparr>no_delta_filter = length (all_spreads_no_delta st),
                loose_delta_filter = length (all_spreads_loose_delta st),
                strict_delta_filter = length (all_spreads_strict_delta st)\<rparr>,
             best_deals = take 25 (all_spreads_no_delta st),
             timestamp = now\<rparr>)"

section \<open>Notions used by the properties\<close>

text \<open>A stand-in for the distribution function where a closed example is evaluated: the
  logistic function is monotone with values between 0 and 1, which is all the general
  theorems ask of \<open>cdf\<close>. The example datasets below use an implied volatility of 0,
  so their runs never evaluate it.\<close>

definition logistic_cdf :: "real \<Rightarrow> real" where
  "logistic_cdf x = 1 / (1 + exp (- x))"

text \<open>\<open>built_from\<close> says how the fields of an appended spread come from a pair of calls,
  by the assignments of lines 139 to 227 and the tests passed on the way.\<close>

definition built_from ::
  "(real \<Rightarrow> real) \<Rightarrow> BlackScholesCalculator \<Rightarrow> (string \<rightharpoonup> price_entry) \<Rightarrow> (string \<rightharpoonup> greek_entry)
     \<Rightarrow> string \<Rightarrow> real \<Rightarrow> contract \<Rightarrow> contract \<Rightarrow> spread \<Rightarrow> bool" where
  "built_from cdf bs_calc price_lookup greek_lookup co spot short_call long_call s \<longleftrightarrow>
     (\<exists>sp lp sg lg p gs gl.
        price_lookup (streamer_symbol short_call) = Some sp \<and>
        price_lookup (streamer_symbol long_call) = Some lp \<and>
        greek_lookup (streamer_symbol short_call) = Some sg \<and>
        greek_lookup (streamer_symbol long_call) = Some lg \<and>
        strike_price long_call - strike_price short_call \<le> 5 \<and>
        0 < real_of_int (days_until_expires short_call) / 365 \<and>
        0 < what_buyers_pay sp \<and> 0 < what_sellers_want lp \<and>
        0 < what_buyers_pay sp - what_sellers_want lp \<and>
        probability_otm cdf bs_calc spot (strike_price short_call)
          (real_of_int (days_until_expires short_call) / 365)
          ((implied_volatility sg + implied_volatility lg) / 2) ''call'' = Inr p \<and>
        calculate_greeks cdf spot (strike_price short_call)
          (real_of_int (days_until_expires short_call) / 365)
          (risk_free_rate bs_calc) (implied_volatility sg) ''call'' = Inr gs \<and>
        calculate_greeks cdf spot (strike_price long_call)
          (real_of_int (days_until_expires short_call) / 365)
          (risk_free_rate bs_calc) (implied_volatility lg) ''call'' = Inr gl \<and>
        company s = co \<and>
        short_strike s = strike_price short_call \<and>
        long_strike s = strike_price long_call \<and>
        days_to_expiration s = days_until_expires short_call \<and>
        credit_collected s = what_buyers_pay sp - what_sellers_want lp \<and>
        max_risk s = strike_price long_call - strike_price short_call
                       - (what_buyers_pay sp - what_sellers_want lp) \<and>
        0 < max_risk s \<and>
        roi_percent s = credit_collected s / max_risk s * 100 \<and>
        10 < roi_percent s \<and>
        probability_of_profit s = p * 100 \<and>
        66 < probability_of_profit s \<and>
        spread.current_stock_price s = spot \<and>
        avg_implied_volatility s = (implied_volatility sg + implied_volatility lg) / 2 \<and>
        spread_delta s = delta gs - delta gl \<and>
        spread_theta s = theta gs - theta gl)"

text \<open>The tests of lines 233 and 237.\<close>

definition loose_ok :: "spread \<Rightarrow> bool" where
  "loose_ok s \<longleftrightarrow> - 0.5 \<le> spread_delta s \<and> spread_delta s \<le> 0.5"

definition strict_ok :: "spread \<Rightarrow> bool" where
  "strict_ok s \<longleftrightarrow> - 0.2 \<le> spread_delta s \<and> spread_delta s \<le> 0.2"

text \<open>The pairs the loops of lines 122 to 137 visit: adjacent calls above the stock price of
  some expiration of some company.\<close>

definition candidate ::
  "(string \<times> company_options) list \<Rightarrow> string \<Rightarrow> real \<Rightarrow> contract \<Rightarrow> contract \<Rightarrow> bool" where
  "candidate options_by_company co spot short_call long_call \<longleftrightarrow>
     (\<exists>opts exp_date contracts.
        (co, opts) \<in> set options_by_company \<and>
        (exp_date, contracts) \<in> set (expiration_dates opts) \<and>
        spot = company_options.current_stock_price opts \<and>
        (short_call, long_call) \<in> set (adjacent_pairs (calls_above_price spot contracts)))"

text \<open>The loose and the strict list hold the spreads of the first list that pass their test, in its order.\<close>

definition lists_filtered :: "spread_lists \<Rightarrow> bool" where
  "lists_filtered st \<longleftrightarrow>
     all_spreads_loose_delta st = filter loose_ok (all_spreads_no_delta st) \<and>
     all_spreads_strict_delta st = filter strict_ok (all_spreads_no_delta st)"

subsection \<open>Example datasets\<close>

text \<open>One company with one expiration: a call below the stock price, a put, and two calls
  above it that are listed out of order.\<close>

definition example_options :: "(string \<times> company_options) list" where
  "example_options =
     [(''XYZ'', \<lparr>company_options.current_stock_price = 100, expiration_dates = [(''2025-01-17'',
        [\<lparr>contract_type = ''CALL'', strike_price = 95, streamer_symbol = ''XYZ C95'', days_until_expires = 30\<rparr>,
         \<lparr>contract_type = ''PUT'', strike_price = 105, streamer_symbol = ''XYZ P105'', days_until_expires = 30\<rparr>,
         \<lparr>contract_type = ''CALL'', strike_price = 108, streamer_symbol = ''XYZ C108'', days_until_expires = 30\<rparr>,
         \<lparr>contract_type = ''CALL'', strike_price = 105, streamer_symbol = ''XYZ C105'', days_until_expires = 30\<rparr>])]\<rparr>)]"

definition example_risk :: "(string \<times> greek_entry list) list" where
  "example_risk =
     [(''XYZ'', [\<lparr>greek_entry.contract_name = ''XYZ C105'', implied_volatility = 0\<rparr>,
                 \<lparr>greek_entry.contract_name = ''XYZ C108'', implied_volatility = 0\<rparr>])]"

definition example_prices :: "(string \<times> price_entry list) list" where
  "example_prices =
     [(''XYZ'', [\<lparr>contract_name = ''XYZ C105'', what_buyers_pay = 1.5, what_sellers_want = 1.6\<rparr>,
                 \<lparr>contract_name = ''XYZ C108'', what_buyers_pay = 0.5, what_sellers_want = 0.6\<rparr>])]"

definition example_spread :: spread where
  "example_spread =
     \<lparr>company = ''XYZ'', short_strike = 105, long_strike = 108, days_to_expiration = 30,
      credit_collected = 0.9, max_risk = 2.1, roi_percent = 300 / 7,
      probability_of_profit = 100, current_stock_price = 100, avg_implied_volatility = 0,
      spread_delta = 0, spread_theta = 0, delta_interpretation = ''Neutral''\<rparr>"

definition example_lists :: spread_lists where
  "example_lists =
     \<lparr>all_spreads_no_delta = [example_spread], all_spreads_loose_delta = [example_spread],
      all_spreads_strict_delta = [example_spread],
      stats = \<lparr>deltas_seen = [0], negative_deltas = 0, neutral_deltas = 1, positive_deltas = 0\<rparr>\<rparr>"

definition example_result :: "string \<Rightarrow> result" where
  "example_result now =
     \<lparr>step = 5, filters_used = ''ROI > 10%, PoP > 66%, NO delta filter'',
      total_opportunities = 1,
      delta_analysis = \<lparr>no_delta_filter = 1, loose_delta_filter = 1, strict_delta_filter = 1\<rparr>,
      best_deals = [example_spread], timestamp = now\<rparr>"

text \<open>Twenty-seven calls one dollar apart, of which every adjacent pair is accepted.\<close>

definition wide_options :: "(string \<times> company_options) list" where
  "wide_options =
     [(''XYZ'', \<lparr>company_options.current_stock_price = 100, expiration_dates = [(''2025-01-17'',
     [\<lparr>contract_type = ''CALL'', strike_price = 101, streamer_symbol = ''C101'', days_until_expires = 30\<rparr>,
      \<lparr>contract_type = ''CALL'', strike_price = 102, streamer_symbol = ''C102'', days_until_expires = 30\<rparr>,
      \<lparr>contract_type = ''CALL'', strike_price = 103, streamer_symbol = ''C103'', days_until_expires = 30\<rparr>,
      \<lparr>contract_type = ''CALL'', strike_price = 104, streamer_symbol = ''C104'', days_until_expires = 30\<rparr>,
      \<lparr>contract_type = ''CALL'', strike_price = 105, streamer_symbol = ''C105'', days_until_expires = 30\<rparr>,
      \<lparr>contract_type = ''CALL'', strike_price = 106, streamer_symbol = ''C106'', days_until_expires = 30\<rparr>,
      \<lparr>contract_type = ''CALL'', strike_price = 107, streamer_symbol = ''C107'', days_until_expires = 30\<rparr>,
      \<lparr>contract_type = ''CALL'', strike_price = 108, streamer_symbol = ''C108'', days_until_expires = 30\<rparr>,
      \<lparr>contract_type = ''CALL'', strike_price = 109, streamer_symbol = ''C109'', days_until_expires = 30\<rparr>,
      \<lparr>contract_type = ''CALL'', strike_price = 110, streamer_symbol = ''C110'', days_until_expires = 30\<rparr>,
      \<lparr>contract_type = ''CALL'', strike_price = 111, streamer_symbol = ''C111'', days_until_expires = 30\<rparr>,
      \<lparr>contract_type = ''CALL'', strike_price = 112, streamer_symbol = ''C112'', days_until_expires = 30\<rparr>,
      \<lparr>contract_type = ''CALL'', strike_price = 113, streamer_symbol = ''C113'', days_until_expires = 30\<rparr>,
      \<lparr>contract_type = ''CALL'', strike_price = 114, streamer_symbol = ''C114'', days_until_expires = 30\<rparr>,
      \<lparr>contract_type = ''CALL'', strike_price = 115, streamer_symbol = ''C115'', days_until_expires = 30\<rparr>,
      \<lparr>contract_type = ''CALL'', strike_price = 116, streamer_symbol = ''C116'', days_until_expires = 30\<rparr>,
      \<lparr>contract_type = ''CALL'', strike_price = 117, streamer_symbol = ''C117'', days_until_expires = 30\<rparr>,
      \<lparr>contract_type = ''CALL'', strike_price = 118, streamer_symbol = ''C118'', days_until_expires = 30\<rparr>,
      \<lparr>contract_type = ''CALL'', strike_price = 119, streamer_symbol = ''C119'', days_until_expires = 30\<rparr>,
      \<lparr>contract_type = ''CALL'', strike_price = 120, streamer_symbol = ''C120'', days_until_expires = 30\<rparr>,
      \<lparr>contract_type = ''CALL'', strike_price = 121, streamer_symbol = ''C121'', days_until_expires = 30\<rparr>,
      \<lparr>contract_type = ''CALL'', strike_price = 122, streamer_symbol = ''C122'', days_until_expires = 30\<rparr>,
      \<lparr>contract_type = ''CALL'', strike_price = 123, streamer_symbol = ''C123'', days_until_expires = 30\<rparr>,
      \<lparr>contract_type = ''CALL'', strike_price = 124, streamer_symbol = ''C124'', days_until_expires = 30\<rparr>,
      \<lparr>contract_type = ''CALL'', strike_price = 125, streamer_symbol = ''C125'', days_until_expires = 30\<rparr>,
      \<lparr>contract_type = ''CALL'', strike_price = 126, streamer_symbol = ''C126'', days_until_expires = 30\<rparr>,
      \<lparr>contract_type = ''CALL'', strike_price = 127, streamer_symbol = ''C127'', days_until_expires = 30\<rparr>])]\<rparr>)]"

definition wide_risk :: "(string \<times> greek_entry list) list" where
  "wide_risk = [(''XYZ'',
     [\<lparr>greek_entry.contract_name = ''C101'', implied_volatility = 0\<rparr>,
      \<lparr>greek_entry.contract_name = ''C102'', implied_volatility = 0\<rparr>,
      \<lparr>greek_entry.contract_name = ''C103'', implied_volatility = 0\<rparr>,
      \<lparr>greek_entry.contract_name = ''C104'', implied_volatility = 0\<rparr>,
      \<lparr>greek_entry.contract_name = ''C105'', implied_volatility = 0\<rparr>,
      \<lparr>greek_entry.contract_name = ''C106'', implied_volatility = 0\<rparr>,
      \<lparr>greek_entry.contract_name = ''C107'', implied_volatility = 0\<rparr>,
      \<lparr>greek_entry.contract_name = ''C108'', implied_volatility = 0\<rparr>,
      \<lparr>greek_entry.contract_name = ''C109'', implied_volatility = 0\<rparr>,
      \<lparr>greek_entry.contract_name = ''C110'', implied_volatility = 0\<rparr>,
      \<lparr>greek_entry.contract_name = ''C111'', implied_volatility = 0\<rparr>,
      \<lparr>greek_entry.contract_name = ''C112'', implied_volatility = 0\<rparr>,
      \<lparr>greek_entry.contract_name = ''C113'', implied_volatility = 0\<rparr>,
      \<lparr>greek_entry.contract_name = ''C114'', implied_volatility = 0\<rparr>,
      \<lparr>greek_entry.contract_name = ''C115'', implied_volatility = 0\<rparr>,
      \<lparr>greek_entry.contract_name = ''C116'', implied_volatility = 0\<rparr>,
      \<lparr>greek_entry.contract_name = ''C117'', implied_volatility = 0\<rparr>,
      \<lparr>greek_entry.contract_name = ''C118'', implied_volatility = 0\<rparr>,
      \<lparr>greek_entry.contract_name = ''C119'', implied_volatility = 0\<rparr>,
      \<lparr>greek_entry.contract_name = ''C120'', implied_volatility = 0\<rparr>,
      \<lparr>greek_entry.contract_name = ''C121'', implied_volatility = 0\<rparr>,
      \<lparr>greek_entry.contract_name = ''C122'', implied_volatility = 0\<rparr>,
      \<lparr>greek_entry.contract_name = ''C123'', implied_volatility = 0\<rparr>,
      \<lparr>greek_entry.contract_name = ''C124'', implied_volatility = 0\<rparr>,
      \<lparr>greek_entry.contract_name = ''C125'', implied_volatility = 0\<rparr>,
      \<lparr>greek_entry.contract_name = ''C126'', implied_volatility = 0\<rparr>,
      \<lparr>greek_entry.contract_name = ''C127'', implied_volatility = 0\<rparr>])]"

definition wide_prices :: "(string \<times> price_entry list) list" where
  "wide_prices = [(''XYZ'',
     [\<lparr>contract_name = ''C101'', what_buyers_pay = 13.5, what_sellers_want = 13.5\<rparr>,
      \<lparr>contract_name = ''C102'', what_buyers_pay = 13, what_sellers_want = 13\<rparr>,
      \<lparr>contract_name = ''C103'', what_buyers_pay = 12.5, what_sellers_want = 12.5\<rparr>,
      \<lparr>contract_name = ''C104'', what_buyers_pay = 12, what_sellers_want = 12\<rparr>,
      \<lparr>contract_name = ''C105'', what_buyers_pay = 11.5, what_sellers_want = 11.5\<rparr>,
      \<lparr>contract_name = ''C106'', what_buyers_pay = 11, what_sellers_want = 11\<rparr>,
      \<lparr>contract_name = ''C107'', what_buyers_pay = 10.5, what_sellers_want = 10.5\<rparr>,
      \<lparr>contract_name = ''C108'', what_buyers_pay = 10, what_sellers_want = 10\<rparr>,
      \<lparr>contract_name = ''C109'', what_buyers_pay = 9.5, what_sellers_want = 9.5\<rparr>,
      \<lparr>contract_name = ''C110'', what_buyers_pay = 9, what_sellers_want = 9\<rparr>,
      \<lparr>contract_name = ''C111'', what_buyers_pay = 8.5, what_sellers_want = 8.5\<rparr>,
      \<lparr>contract_name = ''C112'', what_buyers_pay = 8, what_sellers_want = 8\<rparr>,
      \<lparr>contract_name = ''C113'', what_buyers_pay = 7.5, what_sellers_want = 7.5\<rparr>,
      \<lparr>contract_name = ''C114'', what_buyers_pay = 7, what_sellers_want = 7\<rparr>,
      \<lparr>contract_name = ''C115'', what_buyers_pay = 6.5, what_sellers_want = 6.5\<rparr>,
      \<lparr>contract_name = ''C116'', what_buyers_pay = 6, what_sellers_want = 6\<rparr>,
      \<lparr>contract_name = ''C117'', what_buyers_pay = 5.5, what_sellers_want = 5.5\<rparr>,
      \<lparr>contract_name = ''C118'', what_buyers_pay = 5, what_sellers_want = 5\<rparr>,
      \<lparr>contract_name = ''C119'', what_buyers_pay = 4.5, what_sellers_want = 4.5\<rparr>,
      \<lparr>contract_name = ''C120'', what_buyers_pay = 4, what_sellers_want = 4\<rparr>,
      \<lparr>contract_name = ''C121'', what_buyers_pay = 3.5, what_sellers_want = 3.5\<rparr>,
      \<lparr>contract_name = ''C122'', what_buyers_pay = 3, what_sellers_want = 3\<rparr>,
      \<lparr>contract_name = ''C123'', what_buyers_pay = 2.5, what_sellers_want = 2.5\<rparr>,
      \<lparr>contract_name = ''C124'', what_buyers_pay = 2, what_sellers_want = 2\<rparr>,
      \<lparr>contract_name = ''C125'', what_buyers_pay = 1.5, what_sellers_want = 1.5\<rparr>,
      \<lparr>contract_name = ''C126'', what_buyers_pay = 1, what_sellers_want = 1\<rparr>,
      \<lparr>contract_name = ''C127'', what_buyers_pay = 0.5, what_sellers_want = 0.5\<rparr>])]"

text \<open>Two calls of equal strike; three calls with a gap of twelve dollars; quotes whose long leg asks nothing.\<close>

definition duplicate_contracts :: "contract list" where
  "duplicate_contracts =
     [\<lparr>contract_type = ''CALL'', strike_price = 105, streamer_symbol = ''XYZ C105'', days_until_expires = 30\<rparr>,
      \<lparr>contract_type = ''CALL'', strike_price = 105, streamer_symbol = ''XYZW C105'', days_until_expires = 30\<rparr>]"

definition stepped_contracts :: "contract list" where
  "stepped_contracts =
     [\<lparr>contract_type = ''CALL'', strike_price = 120, streamer_symbol = ''XYZ C120'', days_until_expires = 30\<rparr>,
      \<lparr>contract_type = ''CALL'', strike_price = 105, streamer_symbol = ''XYZ C105'', days_until_expires = 30\<rparr>,
      \<lparr>contract_type = ''CALL'', strike_price = 108, streamer_symbol = ''XYZ C108'', days_until_expires = 30\<rparr>]"

definition free_long_leg :: "string \<rightharpoonup> price_entry" where
  "free_long_leg =
     [''XYZ C105'' \<mapsto> \<lparr>price_entry.contract_name = ''XYZ C105'', what_buyers_pay = 1.5, what_sellers_want = 1.6\<rparr>,
      ''XYZ C108'' \<mapsto> \<lparr>price_entry.contract_name = ''XYZ C108'', what_buyers_pay = 0, what_sellers_want = 0\<rparr>]"

section \<open>Lemmas\<close>

subsection \<open>The pricing model\<close>



lemma log_ratio_pos: "0 < S \<Longrightarrow> 0 < K \<Longrightarrow> log_ratio S K = Inr (ln (S / K))"
  by (simp add: log_ratio_def not_le)


lemma float_pow2_error: "float_pow2 x = Inl e \<Longrightarrow> e = OverflowError"
  by (auto simp: float_pow2_def split: if_splits)


subsection \<open>One pass of the loop body\<close>

lemma for_each_inv:
  "for_each body xs st = Inr st' \<Longrightarrow> I st
    \<Longrightarrow> (\<And>x s s'. x \<in> set xs \<Longrightarrow> I s \<Longrightarrow> body x s = Inr s' \<Longrightarrow> I s') \<Longrightarrow> I st'"
proof (induction xs arbitrary: st)
  case Nil
  then show ?case by simp
next
  case (Cons x xs)
  from Cons.prems(1) obtain s1 where b: "body x st = Inr s1"
    and r: "for_each body xs s1 = Inr st'"
    by (auto split: sum.splits)
  have i1: "I s1" using Cons.prems(3)[of x st s1] Cons.prems(2) b by simp
  show ?case
  proof (rule Cons.IH[OF r i1])
    fix y s s' assume "y \<in> set xs" "I s" "body y s = Inr s'"
    then show "I s'" using Cons.prems(3)[of y s s'] by simp
  qed
qed

lemma for_each_new:
  assumes run: "for_each body xs st = Inr st'"
    and step: "\<And>x s s'. x \<in> set xs \<Longrightarrow> body x s = Inr s' \<Longrightarrow> set (f s') \<subseteq> set (f s) \<union> {e. Q x e}"
  shows "set (f st') \<subseteq> set (f st) \<union> {e. \<exists>x\<in>set xs. Q x e}"
proof (rule for_each_inv[OF run, where I = "\<lambda>s. set (f s) \<subseteq> set (f st) \<union> {e. \<exists>x\<in>set xs. Q x e}"])
  show "set (f st) \<subseteq> set (f st) \<union> {e. \<exists>x\<in>set xs. Q x e}" by blast
next
  fix x s s'
  assume x: "x \<in> set xs" and i: "set (f s) \<subseteq> set (f st) \<union> {e. \<exists>x\<in>set xs. Q x e}"
    and b: "body x s = Inr s'"
  from step[OF x b] i x show "set (f s') \<subseteq> set (f st) \<union> {e. \<exists>x\<in>set xs. Q x e}" by blast
qed

lemma add_spread_no_delta [simp]:
  "all_spreads_no_delta (add_spread s st) = all_spreads_no_delta st @ [s]"
  by (simp add: add_spread_def Let_def)

lemma add_spread_loose [simp]:
  "all_spreads_loose_delta (add_spread s st) =
     (if loose_ok s then all_spreads_loose_delta st @ [s] else all_spreads_loose_delta st)"
  by (simp add: add_spread_def Let_def loose_ok_def)

lemma add_spread_strict [simp]:
  "all_spreads_strict_delta (add_spread s st) =
     (if strict_ok s then all_spreads_strict_delta st @ [s] else all_spreads_strict_delta st)"
  by (simp add: add_spread_def Let_def strict_ok_def)

lemma add_spread_stats [simp]: "stats (add_spread s st) = stats st"
  by (simp add: add_spread_def Let_def)

lemma track_delta_seen [simp]: "deltas_seen (track_delta d ds) = deltas_seen ds @ [d]"
  by (simp add: track_delta_def Let_def)

lemma process_pair_result:
  assumes run: "process_pair cdf bs pl gl co spot sc lc st = Inr st'"
  shows "(\<exists>ds. st' = st\<lparr>stats := ds\<rparr>)
       \<or> (\<exists>s ds. built_from cdf bs pl gl co spot sc lc s \<and> st' = add_spread s (st\<lparr>stats := ds\<rparr>))"
proof (cases "\<exists>ds. st' = st\<lparr>stats := ds\<rparr>")
  case True
  then show ?thesis by blast
next
  case False
  then have nt: "st' \<noteq> st\<lparr>stats := ds\<rparr>" for ds by blast
  have ns: "st' \<noteq> st" using nt[of "stats st"] by simp
  let ?T = "real_of_int (days_until_expires sc) / 365"
  have w: "\<not> 5 < strike_price lc - strike_price sc"
    using run ns by (auto simp: process_pair_def)
  obtain sp where sp: "pl (streamer_symbol sc) = Some sp"
    using run ns w by (cases "pl (streamer_symbol sc)") (auto simp: process_pair_def Let_def)
  obtain lp where lp: "pl (streamer_symbol lc) = Some lp"
    using run ns w sp by (cases "pl (streamer_symbol lc)") (auto simp: process_pair_def Let_def)
  obtain sg where sg: "gl (streamer_symbol sc) = Some sg"
    using run ns w sp lp by (cases "gl (streamer_symbol sc)") (auto simp: process_pair_def Let_def)
  obtain lg where lg: "gl (streamer_symbol lc) = Some lg"
    using run ns w sp lp sg by (cases "gl (streamer_symbol lc)") (auto simp: process_pair_def Let_def)
  note lk = sp lp sg lg
  let ?bid = "what_buyers_pay sp" and ?ask = "what_sellers_want lp"
  let ?iv = "(implied_volatility sg + implied_volatility lg) / 2"
  have T: "\<not> ?T \<le> 0"
    using run ns w lk by (auto simp: process_pair_def Let_def split: if_splits)
  have ba: "\<not> ?bid \<le> 0" "\<not> ?ask \<le> 0"
    using run ns w lk T by (auto simp: process_pair_def Let_def split: if_splits)
  have cr: "\<not> ?bid - ?ask \<le> 0"
    using run ns w lk T ba by (auto simp: process_pair_def Let_def split: if_splits)
  obtain p where p: "probability_otm cdf bs spot (strike_price sc) ?T ?iv ''call'' = Inr p"
    using run w lk T ba cr
    by (cases "probability_otm cdf bs spot (strike_price sc) ?T ?iv ''call''")
       (auto simp: process_pair_def Let_def)
  obtain gs where gs: "calculate_greeks cdf spot (strike_price sc) ?T (risk_free_rate bs)
      (implied_volatility sg) ''call'' = Inr gs"
    using run w lk T ba cr p
    by (cases "calculate_greeks cdf spot (strike_price sc) ?T (risk_free_rate bs)
      (implied_volatility sg) ''call''") (auto simp: process_pair_def Let_def)
  obtain gl2 where gl2: "calculate_greeks cdf spot (strike_price lc) ?T (risk_free_rate bs)
      (implied_volatility lg) ''call'' = Inr gl2"
    using run w lk T ba cr p gs
    by (cases "calculate_greeks cdf spot (strike_price lc) ?T (risk_free_rate bs)
      (implied_volatility lg) ''call''") (auto simp: process_pair_def Let_def)
  let ?mr = "strike_price lc - strike_price sc - (?bid - ?ask)"
  let ?roi = "(if ?mr > 0 then ((?bid - ?ask) / ?mr) * 100 else 0)"
  let ?d = "delta gs - delta gl2"
  let ?st1 = "st\<lparr>stats := track_delta ?d (stats st)\<rparr>"
  let ?R = "\<lparr>company = co,
             short_strike = strike_price sc,
             long_strike = strike_price lc,
             days_to_expiration = days_until_expires sc,
             credit_collected = ?bid - ?ask,
             max_risk = ?mr,
             roi_percent = ?roi,
             probability_of_profit = p * 100,
             current_stock_price = spot,
             avg_implied_volatility = ?iv,
             spread_delta = ?d,
             spread_theta = theta gs - theta gl2,
             delta_interpretation =
               (if \<bar>?d\<bar> \<le> 0.2 then ''Neutral''
                else if ?d > 0.2 then ''Bullish'' else ''Bearish'')\<rparr>"
  have eq: "process_pair cdf bs pl gl co spot sc lc st =
      (if ?roi \<le> 10 \<or> p * 100 \<le> 66 then Inr ?st1 else Inr (add_spread ?R ?st1))"
    using w lk T ba cr p gs gl2 by (simp add: process_pair_def Let_def)
  have acc: "\<not> (?roi \<le> 10 \<or> p * 100 \<le> 66)"
  proof
    assume "?roi \<le> 10 \<or> p * 100 \<le> 66"
    with eq run have "st' = ?st1" by (simp only: if_True sum.inject)
    with nt show False by blast
  qed
  with eq run have st': "st' = add_spread ?R ?st1" by (simp only: if_False sum.inject)
  have mr: "0 < ?mr" using acc by (auto split: if_splits)
  have roi: "?roi = (?bid - ?ask) / ?mr * 100" using mr by simp
  have "built_from cdf bs pl gl co spot sc lc ?R"
    unfolding built_from_def
    apply (rule exI[of _ sp], rule exI[of _ lp], rule exI[of _ sg], rule exI[of _ lg])
    apply (rule exI[of _ p], rule exI[of _ gs], rule exI[of _ gl2])
    using w lk T ba cr p gs gl2 acc mr roi by simp
  with st' show ?thesis by blast
qed

lemma process_pair_new:
  assumes "process_pair cdf bs pl gl co spot sc lc st = Inr st'"
  shows "set (all_spreads_no_delta st')
           \<subseteq> set (all_spreads_no_delta st) \<union> {s. built_from cdf bs pl gl co spot sc lc s}"
  using process_pair_result[OF assms] by auto

lemma process_pair_filtered:
  assumes "process_pair cdf bs pl gl co spot sc lc st = Inr st'" "lists_filtered st"
  shows "lists_filtered st'"
  using process_pair_result[OF assms(1)] assms(2) by (auto simp: lists_filtered_def)

lemma process_pair_too_wide:
  "5 < strike_price lc - strike_price sc \<Longrightarrow> process_pair cdf bs pl gl co spot sc lc st = Inr st"
  by (simp add: process_pair_def)

lemma process_pair_gap:
  assumes "pl (streamer_symbol sc) = None \<or> pl (streamer_symbol lc) = None
         \<or> gl (streamer_symbol sc) = None \<or> gl (streamer_symbol lc) = None
         \<or> (\<exists>sp lp. pl (streamer_symbol sc) = Some sp \<and> pl (streamer_symbol lc) = Some lp
               \<and> what_buyers_pay sp - what_sellers_want lp \<le> 0)"
  shows "process_pair cdf bs pl gl co spot sc lc st = Inr st"
  using assms by (auto simp: process_pair_def Let_def split: option.splits)

lemma process_pair_no_risk:
  assumes run: "process_pair cdf bs pl gl co spot sc lc st = Inr st'"
    and q: "pl (streamer_symbol sc) = Some sp" "pl (streamer_symbol lc) = Some lp"
    and risk: "strike_price lc - strike_price sc - (what_buyers_pay sp - what_sellers_want lp) \<le> 0"
  shows "all_spreads_no_delta st' = all_spreads_no_delta st
       \<and> all_spreads_loose_delta st' = all_spreads_loose_delta st
       \<and> all_spreads_strict_delta st' = all_spreads_strict_delta st"
proof -
  from process_pair_result[OF run] show ?thesis
  proof
    assume "\<exists>ds. st' = st\<lparr>stats := ds\<rparr>"
    then show ?thesis by auto
  next
    assume "\<exists>s ds. built_from cdf bs pl gl co spot sc lc s \<and> st' = add_spread s (st\<lparr>stats := ds\<rparr>)"
    then obtain s where "built_from cdf bs pl gl co spot sc lc s" by blast
    with q have "0 < strike_price lc - strike_price sc
                    - (what_buyers_pay sp - what_sellers_want lp)"
      unfolding built_from_def by auto
    with risk show ?thesis by simp
  qed
qed

lemma process_pair_dead_quote:
  assumes "pl (streamer_symbol sc) = Some sp" "pl (streamer_symbol lc) = Some lp"
    and "what_buyers_pay sp \<le> 0 \<or> what_sellers_want lp \<le> 0
         \<or> real_of_int (days_until_expires sc) / 365 \<le> 0"
  shows "process_pair cdf bs pl gl co spot sc lc st = Inr st"
  using assms by (auto simp: process_pair_def Let_def split: option.splits)

subsection \<open>Selection and pairing of the calls\<close>

lemma calls_above_price_set:
  "set (calls_above_price spot contracts) =
     {c \<in> set contracts. contract_type c = ''CALL'' \<and> spot < strike_price c}"
  by (auto simp: calls_above_price_def)

lemma calls_above_price_sorted: "sorted (map strike_price (calls_above_price spot contracts))"
  unfolding calls_above_price_def by (rule sorted_sort_key)

lemma adjacent_pairs_mem:
  assumes "(a, b) \<in> set (adjacent_pairs xs)"
  obtains i where "Suc i < length xs" "a = xs ! i" "b = xs ! Suc i"
proof -
  from assms obtain i where i: "i < length xs - 1" "a = xs ! i" "b = xs ! (i + 1)"
    unfolding adjacent_pairs_def by auto
  from i(1) have "Suc i < length xs" by simp
  with i(2,3) show ?thesis by (intro that[of i]) simp_all
qed

lemma adjacent_pairs_ordered:
  assumes "sorted (map f xs)" "(a, b) \<in> set (adjacent_pairs xs)"
  shows "f a \<le> f b"
proof -
  from assms(2) obtain i where i: "Suc i < length xs" "a = xs ! i" "b = xs ! Suc i"
    by (rule adjacent_pairs_mem)
  have "map f xs ! i \<le> map f xs ! Suc i"
    using assms(1) i(1) by (intro sorted_nth_mono) simp_all
  with i show ?thesis by simp
qed

lemma adjacent_pairs_strict:
  assumes "sorted (map f xs)" "distinct (map f xs)" "(a, b) \<in> set (adjacent_pairs xs)"
  shows "f a < f b"
proof -
  from assms(3) obtain i where i: "Suc i < length xs" "a = xs ! i" "b = xs ! Suc i"
    by (rule adjacent_pairs_mem)
  have "map f xs ! i \<noteq> map f xs ! Suc i"
    using assms(2) i(1) by (simp add: nth_eq_iff_index_eq del: nth_map)
  with i have "f a \<noteq> f b" by simp
  with adjacent_pairs_ordered[OF assms(1,3)] show ?thesis by simp
qed

subsection \<open>The loops\<close>

lemma expiration_loop_new:
  assumes "expiration_loop cdf bs pl gl co spot contracts st = Inr st'"
  shows "set (all_spreads_no_delta st') \<subseteq> set (all_spreads_no_delta st)
           \<union> {s. \<exists>pr\<in>set (adjacent_pairs (calls_above_price spot contracts)).
                    built_from cdf bs pl gl co spot (fst pr) (snd pr) s}"
  using assms unfolding expiration_loop_def
proof (rule for_each_new)
  fix x s s'
  assume b: "(case x of (short_call, long_call) \<Rightarrow>
                process_pair cdf bs pl gl co spot short_call long_call) s = Inr s'"
  then have "process_pair cdf bs pl gl co spot (fst x) (snd x) s = Inr s'"
    by (simp add: case_prod_beta)
  from process_pair_new[OF this]
  show "set (all_spreads_no_delta s') \<subseteq> set (all_spreads_no_delta s)
          \<union> {e. built_from cdf bs pl gl co spot (fst x) (snd x) e}" .
qed

lemma expiration_loop_filtered:
  assumes "expiration_loop cdf bs pl gl co spot contracts st = Inr st'" "lists_filtered st"
  shows "lists_filtered st'"
  using assms unfolding expiration_loop_def
proof (rule for_each_inv)
  fix x s s'
  assume "lists_filtered s"
    and "(case x of (short_call, long_call) \<Rightarrow>
            process_pair cdf bs pl gl co spot short_call long_call) s = Inr s'"
  then show "lists_filtered s'"
    by (cases x) (auto dest: process_pair_filtered)
qed

lemma company_loop_new:
  assumes "company_loop cdf bs pl gl (co, opts) st = Inr st'"
  shows "set (all_spreads_no_delta st') \<subseteq> set (all_spreads_no_delta st)
           \<union> {s. \<exists>ex\<in>set (expiration_dates opts).
                  \<exists>pr\<in>set (adjacent_pairs (calls_above_price
                              (company_options.current_stock_price opts) (snd ex))).
                    built_from cdf bs pl gl co (company_options.current_stock_price opts)
                      (fst pr) (snd pr) s}"
  using assms unfolding company_loop_def prod.case
proof (rule for_each_new)
  fix x s s'
  assume "(case x of (exp_date, contracts) \<Rightarrow>
             expiration_loop cdf bs pl gl co (company_options.current_stock_price opts)
               contracts) s = Inr s'"
  then have "expiration_loop cdf bs pl gl co (company_options.current_stock_price opts)
               (snd x) s = Inr s'"
    by (simp add: case_prod_beta)
  from expiration_loop_new[OF this]
  show "set (all_spreads_no_delta s') \<subseteq> set (all_spreads_no_delta s)
          \<union> {e. \<exists>pr\<in>set (adjacent_pairs (calls_above_price
                              (company_options.current_stock_price opts) (snd x))).
                    built_from cdf bs pl gl co (company_options.current_stock_price opts)
                      (fst pr) (snd pr) e}" .
qed

lemma company_loop_filtered:
  assumes "company_loop cdf bs pl gl entry st = Inr st'" "lists_filtered st"
  shows "lists_filtered st'"
proof -
  obtain co opts where e: "entry = (co, opts)" by (cases entry)
  from assms(1) have "for_each (\<lambda>(exp_date, contracts).
        expiration_loop cdf bs pl gl co (company_options.current_stock_price opts) contracts)
      (expiration_dates opts) st = Inr st'"
    unfolding e company_loop_def by simp
  then show ?thesis using assms(2)
  proof (rule for_each_inv)
    fix x s s'
    assume "lists_filtered s"
      and "(case x of (exp_date, contracts) \<Rightarrow>
              expiration_loop cdf bs pl gl co (company_options.current_stock_price opts)
                contracts) s = Inr s'"
    then show "lists_filtered s'"
      by (cases x) (auto dest: expiration_loop_filtered)
  qed
qed

lemma collect_spreads_filtered:
  assumes "collect_spreads cdf obc risk prices = Inr st"
  shows "lists_filtered st"
  using assms unfolding collect_spreads_def
proof (rule for_each_inv)
  show "lists_filtered empty_lists" by (simp add: lists_filtered_def empty_lists_def)
qed (rule company_loop_filtered)

lemma collect_spreads_origin:
  assumes run: "collect_spreads cdf obc risk prices = Inr st"
    and s: "s \<in> set (all_spreads_no_delta st)"
  shows "\<exists>co spot sc lc. candidate obc co spot sc lc
           \<and> built_from cdf \<lparr>risk_free_rate = 0.05\<rparr> (build_price_lookup prices)
                (build_greek_lookup risk) co spot sc lc s"
proof -
  let ?bs = "\<lparr>risk_free_rate = 0.05\<rparr>" and ?pl = "build_price_lookup prices"
    and ?gl = "build_greek_lookup risk"
  let ?Q = "\<lambda>entry s. \<exists>ex\<in>set (expiration_dates (snd entry)).
                  \<exists>pr\<in>set (adjacent_pairs (calls_above_price
                              (company_options.current_stock_price (snd entry)) (snd ex))).
                    built_from cdf ?bs ?pl ?gl (fst entry)
                      (company_options.current_stock_price (snd entry)) (fst pr) (snd pr) s"
  have "set (all_spreads_no_delta st) \<subseteq> set (all_spreads_no_delta empty_lists)
          \<union> {e. \<exists>entry\<in>set obc. ?Q entry e}"
    using run unfolding collect_spreads_def
  proof (rule for_each_new)
    fix x s s' assume "x \<in> set obc" and b: "company_loop cdf ?bs ?pl ?gl x s = Inr s'"
    obtain co opts where x: "x = (co, opts)" by (cases x)
    from company_loop_new[OF b[unfolded x]] x
    show "set (all_spreads_no_delta s') \<subseteq> set (all_spreads_no_delta s) \<union> {e. ?Q x e}"
      by simp
  qed
  with s obtain entry ex pr where e: "entry \<in> set obc" "ex \<in> set (expiration_dates (snd entry))"
    "pr \<in> set (adjacent_pairs (calls_above_price
                              (company_options.current_stock_price (snd entry)) (snd ex)))"
    "built_from cdf ?bs ?pl ?gl (fst entry)
                      (company_options.current_stock_price (snd entry)) (fst pr) (snd pr) s"
    by (auto simp: empty_lists_def)
  have "candidate obc (fst entry) (company_options.current_stock_price (snd entry)) (fst pr) (snd pr)"
    unfolding candidate_def
    apply (rule exI[of _ "snd entry"], rule exI[of _ "fst ex"], rule exI[of _ "snd ex"])
    using e by simp
  with e(4) show ?thesis by blast
qed

subsection \<open>The errors of a run\<close>

text \<open>With positive stock prices every strike that is selected is positive and the logarithm is
  defined: the loops raise nothing but the \<^verbatim>\<open>OverflowError\<close> of an implied volatility whose
  square is out of range, and the function nothing but that and the \<^verbatim>\<open>ValueError\<close> of
  line 246.\<close>

lemma for_each_error:
  assumes "for_each body xs st = Inl e"
  shows "\<exists>x \<in> set xs. \<exists>st'. body x st' = Inl e"
  using assms
proof (induction xs arbitrary: st)
  case Nil
  then show ?case by simp
next
  case (Cons x xs)
  show ?case
  proof (cases "body x st")
    case (Inl e')
    with Cons.prems have "body x st = Inl e" by simp
    then show ?thesis by auto
  next
    case (Inr st1)
    with Cons.prems have "for_each body xs st1 = Inl e" by simp
    then have "\<exists>y \<in> set xs. \<exists>st'. body y st' = Inl e" by (rule Cons.IH)
    then show ?thesis by auto
  qed
qed

lemma probability_otm_error:
  assumes "0 < S" "0 < K" "probability_otm cdf self S K T sigma option_type = Inl e"
  shows "e = OverflowError"
  using assms
  by (auto simp: probability_otm_def log_ratio_pos Let_def
      split: if_splits sum.splits dest: float_pow2_error)

lemma calculate_greeks_error:
  assumes "0 < S" "0 < K" "calculate_greeks cdf S K T r sigma option_type = Inl e"
  shows "e = OverflowError"
  using assms
  by (auto simp: calculate_greeks_def log_ratio_pos Let_def
      split: if_splits sum.splits dest: float_pow2_error)

lemma process_pair_error:
  assumes pos: "0 < spot" "spot < strike_price sc" "spot < strike_price lc"
    and err: "process_pair cdf bs pl gl co spot sc lc st = Inl e"
  shows "e = OverflowError"
proof (cases "\<exists>sp lp sg lg. pl (streamer_symbol sc) = Some sp \<and> pl (streamer_symbol lc) = Some lp
                \<and> gl (streamer_symbol sc) = Some sg \<and> gl (streamer_symbol lc) = Some lg")
  case False
  then have "pl (streamer_symbol sc) = None \<or> pl (streamer_symbol lc) = None
         \<or> gl (streamer_symbol sc) = None \<or> gl (streamer_symbol lc) = None"
    by auto
  then have "process_pair cdf bs pl gl co spot sc lc st = Inr st"
    by (intro process_pair_gap) blast
  with err show ?thesis by simp
next
  case True
  then obtain sp lp sg lg where l: "pl (streamer_symbol sc) = Some sp"
      "pl (streamer_symbol lc) = Some lp" "gl (streamer_symbol sc) = Some sg"
      "gl (streamer_symbol lc) = Some lg"
    by blast
  have K: "0 < strike_price sc" "0 < strike_price lc" using pos by simp_all
  note p = probability_otm_error[OF pos(1) K(1)]
  note g1 = calculate_greeks_error[OF pos(1) K(1)]
  note g2 = calculate_greeks_error[OF pos(1) K(2)]
  show ?thesis
    using err
    by (auto simp: process_pair_def Let_def l split: if_splits sum.splits dest: p g1 g2)
qed

lemma adjacent_pairs_set:
  assumes "(a, b) \<in> set (adjacent_pairs xs)"
  shows "a \<in> set xs \<and> b \<in> set xs"
proof -
  from assms obtain i where "Suc i < length xs" "a = xs ! i" "b = xs ! Suc i"
    by (rule adjacent_pairs_mem)
  then show ?thesis by simp
qed

lemma expiration_loop_error:
  assumes "0 < spot" "expiration_loop cdf bs pl gl co spot contracts st = Inl e"
  shows "e = OverflowError"
proof -
  from assms(2) obtain x st' where x: "x \<in> set (adjacent_pairs (calls_above_price spot contracts))"
    and e: "(case x of (short_call, long_call) \<Rightarrow>
               process_pair cdf bs pl gl co spot short_call long_call) st' = Inl e"
    unfolding expiration_loop_def by (blast dest: for_each_error)
  from x have "(fst x, snd x) \<in> set (adjacent_pairs (calls_above_price spot contracts))" by simp
  then have "fst x \<in> set (calls_above_price spot contracts)
      \<and> snd x \<in> set (calls_above_price spot contracts)"
    by (rule adjacent_pairs_set)
  then have "spot < strike_price (fst x)" "spot < strike_price (snd x)"
    by (simp_all add: calls_above_price_set)
  moreover from e have "process_pair cdf bs pl gl co spot (fst x) (snd x) st' = Inl e"
    by (simp add: case_prod_beta)
  ultimately show ?thesis using assms(1) by (intro process_pair_error)
qed

lemma company_loop_error:
  assumes "0 < company_options.current_stock_price (snd entry)"
    and "company_loop cdf bs pl gl entry st = Inl e"
  shows "e = OverflowError"
proof -
  from assms(2) have "for_each (\<lambda>(exp_date, contracts).
            expiration_loop cdf bs pl gl (fst entry)
              (company_options.current_stock_price (snd entry)) contracts)
          (expiration_dates (snd entry)) st = Inl e"
    by (simp add: company_loop_def case_prod_beta)
  from for_each_error[OF this] have "\<exists>x st'. expiration_loop cdf bs pl gl (fst entry)
        (company_options.current_stock_price (snd entry)) (snd x) st' = Inl e"
    by (auto simp: case_prod_beta)
  then obtain x st' where "expiration_loop cdf bs pl gl (fst entry)
        (company_options.current_stock_price (snd entry)) (snd x) st' = Inl e"
    by blast
  with assms(1) show ?thesis by (rule expiration_loop_error)
qed

lemma collect_spreads_error:
  assumes "\<And>entry. entry \<in> set options_by_company
             \<Longrightarrow> 0 < company_options.current_stock_price (snd entry)"
    and "collect_spreads cdf options_by_company risk_by_company prices_by_company = Inl e"
  shows "e = OverflowError"
proof -
  from assms(2) obtain x st' where x: "x \<in> set options_by_company"
    and e: "company_loop cdf \<lparr>risk_free_rate = 0.05\<rparr>
      (build_price_lookup prices_by_company) (build_greek_lookup risk_by_company) x st' = Inl e"
    unfolding collect_spreads_def by (blast dest: for_each_error)
  from x have "0 < company_options.current_stock_price (snd x)" by (rule assms(1))
  then show ?thesis using e by (rule company_loop_error)
qed

lemma find_deals_error:
  assumes "\<And>entry. entry \<in> set options_by_company
             \<Longrightarrow> 0 < company_options.current_stock_price (snd entry)"
    and "find_deals_with_delta_analysis cdf now options_by_company risk_by_company
             prices_by_company = Inl e"
  shows "e = OverflowError \<or> e = ValueError"
proof (cases "collect_spreads cdf options_by_company risk_by_company prices_by_company")
  case (Inl e')
  with assms(2) have "e' = e"
    by (simp add: find_deals_with_delta_analysis_def sorted_lists_def)
  with Inl have "collect_spreads cdf options_by_company risk_by_company prices_by_company = Inl e"
    by simp
  with assms(1) have "e = OverflowError" by (rule collect_spreads_error)
  then show ?thesis by simp
next
  case (Inr st)
  with assms(2) show ?thesis
    by (auto simp: find_deals_with_delta_analysis_def sorted_lists_def split: if_splits)
qed

subsection \<open>The sorted lists\<close>

lemma sorted_listsE:
  assumes "sorted_lists cdf obc risk prices = Inr v"
  obtains st where "collect_spreads cdf obc risk prices = Inr st"
    "all_spreads_no_delta v = sort_by_probability (all_spreads_no_delta st)"
    "all_spreads_loose_delta v = sort_by_probability (all_spreads_loose_delta st)"
    "all_spreads_strict_delta v = sort_by_probability (all_spreads_strict_delta st)"
    "stats v = stats st"
  using assms unfolding sorted_lists_def by (auto split: sum.splits)

lemma set_sort_by_probability [simp]: "set (sort_by_probability xs) = set xs"
  by (simp add: sort_by_probability_def)

lemma length_sort_by_probability [simp]: "length (sort_by_probability xs) = length xs"
  by (simp add: sort_by_probability_def)

lemma sort_by_probability_descending:
  "sorted_wrt (\<lambda>a b. probability_of_profit a \<ge> probability_of_profit b) (sort_by_probability xs)"
proof -
  have "sorted (map (\<lambda>x. - probability_of_profit x) (sort_by_probability xs))"
    unfolding sort_by_probability_def by (rule sorted_sort_key)
  then show ?thesis by (simp add: sorted_map)
qed

lemma sort_by_probability_filter:
  "sort_by_probability (filter P xs) = filter P (sort_by_probability xs)"
  unfolding sort_by_probability_def by (rule filter_sort[symmetric])

lemma sorted_lists_filtered:
  assumes "sorted_lists cdf obc risk prices = Inr v"
  shows "lists_filtered v"
proof -
  from assms obtain st where st: "collect_spreads cdf obc risk prices = Inr st"
    "all_spreads_no_delta v = sort_by_probability (all_spreads_no_delta st)"
    "all_spreads_loose_delta v = sort_by_probability (all_spreads_loose_delta st)"
    "all_spreads_strict_delta v = sort_by_probability (all_spreads_strict_delta st)"
    by (rule sorted_listsE)
  from collect_spreads_filtered[OF st(1)] st(2-4) show ?thesis
    by (simp add: lists_filtered_def sort_by_probability_filter)
qed

lemma sorted_lists_members:
  assumes "sorted_lists cdf obc risk prices = Inr v"
    and "s \<in> set (all_spreads_no_delta v) \<union> set (all_spreads_loose_delta v)
            \<union> set (all_spreads_strict_delta v)"
  shows "s \<in> set (all_spreads_no_delta v)"
  using sorted_lists_filtered[OF assms(1)] assms(2) by (auto simp: lists_filtered_def)

lemma sorted_lists_origin:
  assumes "sorted_lists cdf obc risk prices = Inr v"
    and "s \<in> set (all_spreads_no_delta v)"
  shows "\<exists>co spot sc lc. candidate obc co spot sc lc
           \<and> built_from cdf \<lparr>risk_free_rate = 0.05\<rparr> (build_price_lookup prices)
                (build_greek_lookup risk) co spot sc lc s"
proof -
  from assms(1) obtain st where st: "collect_spreads cdf obc risk prices = Inr st"
    "all_spreads_no_delta v = sort_by_probability (all_spreads_no_delta st)"
    by (rule sorted_listsE)
  with assms(2) have "s \<in> set (all_spreads_no_delta st)" by simp
  with st(1) show ?thesis by (rule collect_spreads_origin)
qed

lemma sorted_lists_descending:
  assumes "sorted_lists cdf obc risk prices = Inr v"
  shows "sorted_wrt (\<lambda>a b. probability_of_profit b \<le> probability_of_profit a) (all_spreads_no_delta v)"
    and "sorted_wrt (\<lambda>a b. probability_of_profit b \<le> probability_of_profit a) (all_spreads_loose_delta v)"
    and "sorted_wrt (\<lambda>a b. probability_of_profit b \<le> probability_of_profit a) (all_spreads_strict_delta v)"
  using assms unfolding sorted_lists_def
  by (auto split: sum.splits simp: sort_by_probability_descending)

subsection \<open>The runs on the example datasets\<close>

lemmas run_defs = sorted_lists_def collect_spreads_def company_loop_def expiration_loop_def
  calls_above_price_def adjacent_pairs_def process_pair_def probability_otm_def
  calculate_greeks_def build_price_lookup_def build_greek_lookup_def empty_lists_def
  add_spread_def track_delta_def sort_by_probability_def Let_def

lemma example_run:
  "sorted_lists logistic_cdf example_options example_risk example_prices = Inr example_lists"
  by (simp add: run_defs example_options_def example_risk_def example_prices_def
        example_lists_def example_spread_def)

lemma example_member:
  "example_spread \<in> set (all_spreads_no_delta example_lists)
      \<union> set (all_spreads_loose_delta example_lists) \<union> set (all_spreads_strict_delta example_lists)"
  by (simp add: example_lists_def)

lemma example_document:
  "find_deals_with_delta_analysis logistic_cdf now example_options example_risk example_prices =
     Inr (example_result now)"
  by (simp add: find_deals_with_delta_analysis_def example_run example_lists_def
        example_result_def)

lemma wide_run:
  "\<exists>st. sorted_lists logistic_cdf wide_options wide_risk wide_prices = Inr st
      \<and> length (all_spreads_no_delta st) = 26 \<and> length (all_spreads_loose_delta st) = 26
      \<and> length (all_spreads_strict_delta st) = 26 \<and> deltas_seen (stats st) \<noteq> []"
  by (simp add: run_defs wide_options_def wide_risk_def wide_prices_def)

section \<open>The claims\<close>




text \<open>Claim C2 (the three views are sorted by probability of profit, highest first, and cut to
  the first 25). All three lists are sorted that way (lines 241 to 243), but the document
  holds only the first 25 spreads of the list without delta filter, the number 25 being
  written into line 305; of the loose and the strict list it holds the lengths, which are
  not cut.\<close>

theorem result_views:
  assumes "find_deals_with_delta_analysis cdf now obc risk prices = Inr r"
  shows "\<exists>v. sorted_lists cdf obc risk prices = Inr v
     \<and> sorted_wrt (\<lambda>a b. probability_of_profit b \<le> probability_of_profit a) (all_spreads_no_delta v)
     \<and> sorted_wrt (\<lambda>a b. probability_of_profit b \<le> probability_of_profit a) (all_spreads_loose_delta v)
     \<and> sorted_wrt (\<lambda>a b. probability_of_profit b \<le> probability_of_profit a) (all_spreads_strict_delta v)
     \<and> best_deals r = take 25 (all_spreads_no_delta v)
     \<and> length (best_deals r) = min 25 (length (all_spreads_no_delta v))
     \<and> sorted_wrt (\<lambda>a b. probability_of_profit b \<le> probability_of_profit a) (best_deals r)
     \<and> total_opportunities r = length (all_spreads_no_delta v)
     \<and> delta_analysis r =
          \<lparr>no_delta_filter = length (all_spreads_no_delta v),
           loose_delta_filter = length (all_spreads_loose_delta v),
           strict_delta_filter = length (all_spreads_strict_delta v)\<rparr>"
proof -
  from assms obtain v where v: "sorted_lists cdf obc risk prices = Inr v"
    and r: "r = \<lparr>step = 5, filters_used = ''ROI > 10%, PoP > 66%, NO delta filter'',
             total_opportunities = length (all_spreads_no_delta v),
             delta_analysis =
               \<lparr>no_delta_filter = length (all_spreads_no_delta v),
                loose_delta_filter = length (all_spreads_loose_delta v),
                strict_delta_filter = length (all_spreads_strict_delta v)\<rparr>,
             best_deals = take 25 (all_spreads_no_delta v),
             timestamp = now\<rparr>"
    by (auto simp: find_deals_with_delta_analysis_def split: sum.splits if_splits)
  note d = sorted_lists_descending[OF v]
  have "sorted_wrt (\<lambda>a b. probability_of_profit b \<le> probability_of_profit a)
          (take 25 (all_spreads_no_delta v))"
    using d(1) by (rule sorted_wrt_take)
  with v d show ?thesis by (simp add: r min.commute)
qed

theorem result_views_witness:
  "find_deals_with_delta_analysis logistic_cdf ''2025-01-01T09:30:00''
       example_options example_risk example_prices = Inr (example_result ''2025-01-01T09:30:00'')
   \<and> (\<exists>v. sorted_lists logistic_cdf example_options example_risk example_prices = Inr v
     \<and> sorted_wrt (\<lambda>a b. probability_of_profit b \<le> probability_of_profit a) (all_spreads_no_delta v)
     \<and> sorted_wrt (\<lambda>a b. probability_of_profit b \<le> probability_of_profit a) (all_spreads_loose_delta v)
     \<and> sorted_wrt (\<lambda>a b. probability_of_profit b \<le> probability_of_profit a) (all_spreads_strict_delta v)
     \<and> best_deals (example_result ''2025-01-01T09:30:00'') = take 25 (all_spreads_no_delta v)
     \<and> length (best_deals (example_result ''2025-01-01T09:30:00''))
          = min 25 (length (all_spreads_no_delta v))
     \<and> sorted_wrt (\<lambda>a b. probability_of_profit b \<le> probability_of_profit a)
          (best_deals (example_result ''2025-01-01T09:30:00''))
     \<and> total_opportunities (example_result ''2025-01-01T09:30:00'') = length (all_spreads_no_delta v)
     \<and> delta_analysis (example_result ''2025-01-01T09:30:00'') =
          \<lparr>no_delta_filter = length (all_spreads_no_delta v),
           loose_delta_filter = length (all_spreads_loose_delta v),
           strict_delta_filter = length (all_spreads_strict_delta v)\<rparr>)"
  using result_views[OF example_document[of "''2025-01-01T09:30:00''"]]
    example_document[of "''2025-01-01T09:30:00''"]
  by blast

text \<open>The dataset of twenty-seven calls: each list has 26 spreads, the document reports 26 for
  each, and \<^verbatim>\<open>best_deals\<close> has 25.\<close>

theorem untruncated_views:
  "\<exists>v r. sorted_lists logistic_cdf wide_options wide_risk wide_prices = Inr v
      \<and> find_deals_with_delta_analysis logistic_cdf ''2025-01-01T09:30:00''
            wide_options wide_risk wide_prices = Inr r
      \<and> length (all_spreads_loose_delta v) = 26 \<and> length (all_spreads_strict_delta v) = 26
      \<and> loose_delta_filter (delta_analysis r) = 26 \<and> strict_delta_filter (delta_analysis r) = 26
      \<and> total_opportunities r = 26 \<and> length (best_deals r) = 25"
proof -
  from wide_run obtain st where
    "sorted_lists logistic_cdf wide_options wide_risk wide_prices = Inr st"
    "length (all_spreads_no_delta st) = 26" "length (all_spreads_loose_delta st) = 26"
    "length (all_spreads_strict_delta st) = 26" "deltas_seen (stats st) \<noteq> []"
    by blast
  then show ?thesis by (simp add: find_deals_with_delta_analysis_def)
qed

text \<open>Claim C3 (the strict list is within the loose list, the loose list within the list
  without delta filter; the strict list has spread deltas of absolute value at most 0.2,
  the loose list at most 0.5; no listed spread has a return of at most 10 or a probability
  of profit of at most 66).\<close>

theorem lists_nested_and_filtered:
  assumes "sorted_lists cdf obc risk prices = Inr v"
  shows "set (all_spreads_strict_delta v) \<subseteq> set (all_spreads_loose_delta v)
       \<and> set (all_spreads_loose_delta v) \<subseteq> set (all_spreads_no_delta v)
       \<and> (\<forall>s \<in> set (all_spreads_strict_delta v). \<bar>spread_delta s\<bar> \<le> 0.2)
       \<and> (\<forall>s \<in> set (all_spreads_loose_delta v). \<bar>spread_delta s\<bar> \<le> 0.5)
       \<and> (\<forall>s \<in> set (all_spreads_no_delta v).
            \<not> roi_percent s \<le> 10 \<and> \<not> probability_of_profit s \<le> 66)"
proof -
  have f: "lists_filtered v" using assms by (rule sorted_lists_filtered)
  have thr: "\<not> roi_percent s \<le> 10 \<and> \<not> probability_of_profit s \<le> 66"
    if "s \<in> set (all_spreads_no_delta v)" for s
    using sorted_lists_origin[OF assms that] by (auto simp: built_from_def)
  from f thr show ?thesis
    by (auto simp: lists_filtered_def loose_ok_def strict_ok_def)
qed

theorem lists_nested_and_filtered_witness:
  "sorted_lists logistic_cdf example_options example_risk example_prices = Inr example_lists
   \<and> example_spread \<in> set (all_spreads_strict_delta example_lists)
   \<and> example_spread \<in> set (all_spreads_loose_delta example_lists)
   \<and> example_spread \<in> set (all_spreads_no_delta example_lists)
   \<and> \<bar>spread_delta example_spread\<bar> \<le> 0.2
   \<and> \<bar>spread_delta example_spread\<bar> \<le> 0.5
   \<and> \<not> roi_percent example_spread \<le> 10
   \<and> \<not> probability_of_profit example_spread \<le> 66"
  using lists_nested_and_filtered[OF example_run] example_run
  by (simp add: example_lists_def)

text \<open>Claim C4 (the calls above the stock price, sorted by strike; the adjacent pairs of that
  order; pairs wider than 5 skipped without error; never a pair whose short strike is at
  least the long strike). The last part fails when two calls of an expiration have the
  same strike: they are adjacent after sorting, their width 0 is not above 5, and the pair
  is passed on. What holds is that the short strike is at most the long strike, and below
  it when the strikes of the selected calls are distinct.\<close>

theorem spread_constructor:
  "set (calls_above_price spot contracts) =
       {c \<in> set contracts. contract_type c = ''CALL'' \<and> spot < strike_price c}
   \<and> sorted (map strike_price (calls_above_price spot contracts))
   \<and> adjacent_pairs (calls_above_price spot contracts) =
       map (\<lambda>i. (calls_above_price spot contracts ! i, calls_above_price spot contracts ! (i + 1)))
         [0 ..< length (calls_above_price spot contracts) - 1]
   \<and> (\<forall>(short_call, long_call) \<in> set (adjacent_pairs (calls_above_price spot contracts)).
        strike_price short_call \<le> strike_price long_call
        \<and> (5 < strike_price long_call - strike_price short_call \<longrightarrow>
             process_pair cdf bs pl gl co spot short_call long_call st = Inr st))
   \<and> (distinct (map strike_price (calls_above_price spot contracts)) \<longrightarrow>
        (\<forall>(short_call, long_call) \<in> set (adjacent_pairs (calls_above_price spot contracts)).
           strike_price short_call < strike_price long_call))"
  using calls_above_price_set[of spot contracts] calls_above_price_sorted[of spot contracts]
    adjacent_pairs_ordered[OF calls_above_price_sorted[of spot contracts]]
    adjacent_pairs_strict[OF calls_above_price_sorted[of spot contracts]]
  by (auto simp: process_pair_too_wide adjacent_pairs_def[of "calls_above_price spot contracts"])

theorem spread_constructor_witness:
  "adjacent_pairs (calls_above_price 100 stepped_contracts) =
      [(stepped_contracts ! 1, stepped_contracts ! 2), (stepped_contracts ! 2, stepped_contracts ! 0)]
   \<and> strike_price (stepped_contracts ! 1) \<le> strike_price (stepped_contracts ! 2)
   \<and> 5 < strike_price (stepped_contracts ! 0) - strike_price (stepped_contracts ! 2)
   \<and> process_pair logistic_cdf \<lparr>risk_free_rate = 0.05\<rparr> Map.empty Map.empty ''XYZ'' 100
        (stepped_contracts ! 2) (stepped_contracts ! 0) empty_lists = Inr empty_lists
   \<and> distinct (map strike_price (calls_above_price 100 stepped_contracts))
   \<and> strike_price (stepped_contracts ! 1) < strike_price (stepped_contracts ! 2)"
  using spread_constructor[where spot = 100 and contracts = stepped_contracts
      and cdf = logistic_cdf and bs = "\<lparr>risk_free_rate = 0.05\<rparr>" and pl = Map.empty
      and gl = Map.empty and co = "''XYZ''" and st = empty_lists]
  by (simp add: stepped_contracts_def calls_above_price_def adjacent_pairs_def)

text \<open>Two calls at 105: the pair is produced, its short strike is not below its long strike, and it is not too wide.\<close>

theorem equal_strikes_pair:
  "(duplicate_contracts ! 0, duplicate_contracts ! 1)
      \<in> set (adjacent_pairs (calls_above_price 100 duplicate_contracts))
   \<and> strike_price (duplicate_contracts ! 0) \<ge> strike_price (duplicate_contracts ! 1)
   \<and> \<not> 5 < strike_price (duplicate_contracts ! 1) - strike_price (duplicate_contracts ! 0)"
  by (simp add: duplicate_contracts_def calls_above_price_def adjacent_pairs_def)

text \<open>Claim C5 (with no time left or no volatility the price is the intrinsic value, of a call
  \<open>max (S - K) 0\<close> and of a put \<open>max (K - S) 0\<close>). The calculator has one pricing method,
  \<^verbatim>\<open>black_scholes_call\<close>, without an option type; the statement holds for it as the
  price of a call.\<close>

theorem black_scholes_call_intrinsic:
  "T \<le> 0 \<or> sigma \<le> 0 \<Longrightarrow> black_scholes_call cdf S K T r sigma = Inr (max (S - K) 0)"
  by (auto simp: black_scholes_call_def)

theorem black_scholes_call_intrinsic_witness:
  "((0::real) \<le> 0 \<or> (0.3::real) \<le> 0)
   \<and> black_scholes_call logistic_cdf 110 100 0 0.05 0.3 = Inr (max (110 - 100) 0)"
  using black_scholes_call_intrinsic[where T = 0 and sigma = "0.3" and cdf = logistic_cdf
      and S = 110 and K = 100 and r = "0.05"]
  by simp

text \<open>For a stock at 100 and a strike of 110 at expiry the intrinsic value of a put is 10; the
  only price the calculator offers is 0.\<close>

theorem no_put_intrinsic:
  "black_scholes_call logistic_cdf 100 110 0 0.05 0.3 \<noteq> Inr (max (110 - 100) 0)"
  by (simp add: black_scholes_call_def)







text \<open>Claim C8 (the probability of profit of a listed spread is 100 times the probability that
  a call at the short strike expires out of the money, computed from the stock price, the
  days to expiration over 365 and the mean of the implied volatilities of the two legs).\<close>

theorem pop_from_short_strike:
  assumes "sorted_lists cdf obc risk prices = Inr v"
    and "s \<in> set (all_spreads_no_delta v) \<union> set (all_spreads_loose_delta v)
            \<union> set (all_spreads_strict_delta v)"
  shows "\<exists>short_call long_call sg lg p.
           candidate obc (company s) (spread.current_stock_price s) short_call long_call
         \<and> build_greek_lookup risk (streamer_symbol short_call) = Some sg
         \<and> build_greek_lookup risk (streamer_symbol long_call) = Some lg
         \<and> avg_implied_volatility s = (implied_volatility sg + implied_volatility lg) / 2
         \<and> short_strike s = strike_price short_call
         \<and> days_to_expiration s = days_until_expires short_call
         \<and> probability_otm cdf \<lparr>risk_free_rate = 0.05\<rparr> (spread.current_stock_price s)
              (short_strike s) (real_of_int (days_to_expiration s) / 365)
              (avg_implied_volatility s) ''call'' = Inr p
         \<and> probability_of_profit s = p * 100"
proof -
  have "s \<in> set (all_spreads_no_delta v)" using assms by (rule sorted_lists_members)
  from sorted_lists_origin[OF assms(1) this]
  obtain co spot sc lc where c: "candidate obc co spot sc lc"
    and b: "built_from cdf \<lparr>risk_free_rate = 0.05\<rparr> (build_price_lookup prices)
                (build_greek_lookup risk) co spot sc lc s"
    by blast
  from b obtain sg lg p where g: "build_greek_lookup risk (streamer_symbol sc) = Some sg"
      "build_greek_lookup risk (streamer_symbol lc) = Some lg"
    and otm: "probability_otm cdf \<lparr>risk_free_rate = 0.05\<rparr> spot (strike_price sc)
          (real_of_int (days_until_expires sc) / 365)
          ((implied_volatility sg + implied_volatility lg) / 2) ''call'' = Inr p"
    and f: "company s = co" "short_strike s = strike_price sc"
      "days_to_expiration s = days_until_expires sc"
      "probability_of_profit s = p * 100" "spread.current_stock_price s = spot"
    and av: "avg_implied_volatility s = (implied_volatility sg + implied_volatility lg) / 2"
    unfolding built_from_def by blast
  have "candidate obc (company s) (spread.current_stock_price s) sc lc"
    using c f by simp
  moreover have "probability_otm cdf \<lparr>risk_free_rate = 0.05\<rparr> (spread.current_stock_price s)
        (short_strike s) (real_of_int (days_to_expiration s) / 365)
        (avg_implied_volatility s) ''call'' = Inr p"
    using otm by (simp only: f av)
  ultimately show ?thesis using g f(2,3,4) av by blast
qed

theorem pop_from_short_strike_witness:
  "sorted_lists logistic_cdf example_options example_risk example_prices = Inr example_lists
   \<and> example_spread \<in> set (all_spreads_no_delta example_lists)
        \<union> set (all_spreads_loose_delta example_lists) \<union> set (all_spreads_strict_delta example_lists)
   \<and> (\<exists>short_call long_call sg lg p.
           candidate example_options (company example_spread)
             (spread.current_stock_price example_spread) short_call long_call
         \<and> build_greek_lookup example_risk (streamer_symbol short_call) = Some sg
         \<and> build_greek_lookup example_risk (streamer_symbol long_call) = Some lg
         \<and> avg_implied_volatility example_spread = (implied_volatility sg + implied_volatility lg) / 2
         \<and> short_strike example_spread = strike_price short_call
         \<and> days_to_expiration example_spread = days_until_expires short_call
         \<and> probability_otm logistic_cdf \<lparr>risk_free_rate = 0.05\<rparr>
              (spread.current_stock_price example_spread)
              (short_strike example_spread) (real_of_int (days_to_expiration example_spread) / 365)
              (avg_implied_volatility example_spread) ''call'' = Inr p
         \<and> probability_of_profit example_spread = p * 100)"
  using pop_from_short_strike[OF example_run example_member] example_run example_member
  by blast

text \<open>Claim C9 (a pair with a missing lookup, a credit of at most 0 or a risk of at most 0 is
  in no list, and no exception is raised). The loop drops such a pair without error, as
  \<open>process_pair_gap\<close> and \<open>process_pair_no_risk\<close> show. But line 246 takes \<^verbatim>\<open>min\<close> of the
  deltas seen, a list to which a dropped pair adds nothing when it is dropped before the
  greeks are computed. In the run below there are no quotes at all: the loop ends with
  empty lists and the function raises \<^verbatim>\<open>ValueError\<close> instead of returning a document.\<close>

theorem all_candidates_dropped_raises:
  "(\<forall>symbol. build_price_lookup [] symbol = None)
   \<and> collect_spreads logistic_cdf example_options example_risk [] = Inr empty_lists
   \<and> find_deals_with_delta_analysis logistic_cdf now example_options example_risk [] = Inl ValueError"
  by (simp add: find_deals_with_delta_analysis_def run_defs example_options_def example_risk_def)

text \<open>Claim C10 (every listed spread was built from a short bid above 0, a long ask above 0
  and a time to expiry above 0; a pair failing one of these is skipped before any pricing,
  also one whose credit is positive while its long ask is not).\<close>

theorem listed_spreads_have_live_quotes:
  assumes "sorted_lists cdf obc risk prices = Inr v"
    and "s \<in> set (all_spreads_no_delta v) \<union> set (all_spreads_loose_delta v)
            \<union> set (all_spreads_strict_delta v)"
  shows "(\<exists>short_call long_call sp lp.
            candidate obc (company s) (spread.current_stock_price s) short_call long_call
          \<and> build_price_lookup prices (streamer_symbol short_call) = Some sp
          \<and> build_price_lookup prices (streamer_symbol long_call) = Some lp
          \<and> 0 < what_buyers_pay sp \<and> 0 < what_sellers_want lp
          \<and> days_to_expiration s = days_until_expires short_call
          \<and> 0 < real_of_int (days_to_expiration s) / 365
          \<and> credit_collected s = what_buyers_pay sp - what_sellers_want lp)
       \<and> (pl (streamer_symbol sc) = Some sp' \<and> pl (streamer_symbol lc) = Some lp'
            \<and> (what_buyers_pay sp' \<le> 0 \<or> what_sellers_want lp' \<le> 0
                 \<or> real_of_int (days_until_expires sc) / 365 \<le> 0)
          \<longrightarrow> process_pair cdf' bs pl gl co spot sc lc st = Inr st)"
proof -
  have "s \<in> set (all_spreads_no_delta v)" using assms by (rule sorted_lists_members)
  from sorted_lists_origin[OF assms(1) this]
  obtain co' spot' c d where c: "candidate obc co' spot' c d"
    and b: "built_from cdf \<lparr>risk_free_rate = 0.05\<rparr> (build_price_lookup prices)
                (build_greek_lookup risk) co' spot' c d s"
    by blast
  from b obtain sp lp where q: "build_price_lookup prices (streamer_symbol c) = Some sp"
      "build_price_lookup prices (streamer_symbol d) = Some lp"
      "0 < what_buyers_pay sp" "0 < what_sellers_want lp"
      "0 < real_of_int (days_until_expires c) / 365"
    and f: "company s = co'" "spread.current_stock_price s = spot'"
      "days_to_expiration s = days_until_expires c"
      "credit_collected s = what_buyers_pay sp - what_sellers_want lp"
    unfolding built_from_def by blast
  have "candidate obc (company s) (spread.current_stock_price s) c d"
    using c f by simp
  moreover have "0 < real_of_int (days_to_expiration s) / 365"
    using q(5) by (simp only: f)
  ultimately have first: "\<exists>short_call long_call sp lp.
            candidate obc (company s) (spread.current_stock_price s) short_call long_call
          \<and> build_price_lookup prices (streamer_symbol short_call) = Some sp
          \<and> build_price_lookup prices (streamer_symbol long_call) = Some lp
          \<and> 0 < what_buyers_pay sp \<and> 0 < what_sellers_want lp
          \<and> days_to_expiration s = days_until_expires short_call
          \<and> 0 < real_of_int (days_to_expiration s) / 365
          \<and> credit_collected s = what_buyers_pay sp - what_sellers_want lp"
    using q(1-4) f(3,4) by blast
  have "process_pair cdf' bs pl gl co spot sc lc st = Inr st"
    if "pl (streamer_symbol sc) = Some sp'" "pl (streamer_symbol lc) = Some lp'"
      "what_buyers_pay sp' \<le> 0 \<or> what_sellers_want lp' \<le> 0
         \<or> real_of_int (days_until_expires sc) / 365 \<le> 0"
    using that by (rule process_pair_dead_quote)
  with first show ?thesis by blast
qed

theorem listed_spreads_have_live_quotes_witness:
  "sorted_lists logistic_cdf example_options example_risk example_prices = Inr example_lists
   \<and> example_spread \<in> set (all_spreads_no_delta example_lists)
        \<union> set (all_spreads_loose_delta example_lists) \<union> set (all_spreads_strict_delta example_lists)
   \<and> (\<exists>short_call long_call sp lp.
            candidate example_options (company example_spread)
              (spread.current_stock_price example_spread) short_call long_call
          \<and> build_price_lookup example_prices (streamer_symbol short_call) = Some sp
          \<and> build_price_lookup example_prices (streamer_symbol long_call) = Some lp
          \<and> 0 < what_buyers_pay sp \<and> 0 < what_sellers_want lp
          \<and> days_to_expiration example_spread = days_until_expires short_call
          \<and> 0 < real_of_int (days_to_expiration example_spread) / 365
          \<and> credit_collected example_spread = what_buyers_pay sp - what_sellers_want lp)
   \<and> free_long_leg (streamer_symbol (stepped_contracts ! 1)) =
        Some \<lparr>contract_name = ''XYZ C105'', what_buyers_pay = 1.5, what_sellers_want = 1.6\<rparr>
   \<and> free_long_leg (streamer_symbol (stepped_contracts ! 2)) =
        Some \<lparr>contract_name = ''XYZ C108'', what_buyers_pay = 0, what_sellers_want = 0\<rparr>
   \<and> (0::real) < 1.5 - 0 \<and> (0::real) \<le> 0
   \<and> process_pair logistic_cdf \<lparr>risk_free_rate = 0.05\<rparr> free_long_leg
        (build_greek_lookup example_risk) ''XYZ'' 100
        (stepped_contracts ! 1) (stepped_contracts ! 2) empty_lists = Inr empty_lists"
  using listed_spreads_have_live_quotes[OF example_run example_member,
      where pl = free_long_leg and sc = "stepped_contracts ! 1" and lc = "stepped_contracts ! 2"
        and sp' = "\<lparr>contract_name = ''XYZ C105'', what_buyers_pay = 1.5, what_sellers_want = 1.6\<rparr>"
        and lp' = "\<lparr>contract_name = ''XYZ C108'', what_buyers_pay = 0, what_sellers_want = 0\<rparr>"
        and cdf' = logistic_cdf and bs = "\<lparr>risk_free_rate = 0.05\<rparr>"
        and gl = "build_greek_lookup example_risk" and co = "''XYZ''" and spot = 100
        and st = empty_lists]
    example_run example_member
  by (simp add: free_long_leg_def stepped_contracts_def)

end
